theory Spec2Isabelle
  imports Complex_Main
begin

section \<open>JavaScript values as the server handles them\<close>

text \<open>
  \<^verbatim>\<open>server.js\<close> receives parsed JSON documents (request bodies, rows handed over by the
  database driver) and reads properties from them. A JSON document is a \<open>json\<close>; a
  JavaScript value is a \<open>json option\<close>, where \<open>None\<close> is \<^verbatim>\<open>undefined\<close> (reading a
  property that is not there). Numbers are the reals their doubles denote; a string's
  \<^verbatim>\<open>length\<close> is the length of its character list. An object is the list of its own
  properties in insertion order, looked up with \<open>map_of\<close>.
\<close>

datatype json =
    JNull
  | JBool bool
  | JNum real
  | JStr string
  | JArr "json list"
  | JObj "(string \<times> json) list"

type_synonym jsval = "json option"

datatype exn = TypeError

text \<open>An error object of the driver: \<^verbatim>\<open>err.code\<close> (absent on some errors) and \<^verbatim>\<open>err.message\<close>.\<close>

record js_error =
  code :: "string option"
  message :: string

text \<open>Truthiness, as \<^verbatim>\<open>if (x)\<close>, \<^verbatim>\<open>!x\<close> and \<^verbatim>\<open>x || y\<close> test it.\<close>

fun truthy :: "jsval \<Rightarrow> bool" where
  "truthy None = False"
| "truthy (Some JNull) = False"
| "truthy (Some (JBool b)) = b"
| "truthy (Some (JNum n)) = (n \<noteq> 0)"
| "truthy (Some (JStr s)) = (s \<noteq> [])"
| "truthy (Some (JArr xs)) = True"
| "truthy (Some (JObj kvs)) = True"

definition js_or :: "jsval \<Rightarrow> jsval \<Rightarrow> jsval" where
  "js_or a b = (if truthy a then a else b)"

text \<open>
  Property read \<^verbatim>\<open>v.k\<close>: a TypeError on \<^verbatim>\<open>undefined\<close> and \<^verbatim>\<open>null\<close>; an own
  property of an object; \<^verbatim>\<open>length\<close> of arrays and strings; \<^verbatim>\<open>undefined\<close> otherwise
  (none of the names the server reads is inherited from a prototype as a JSON value).
\<close>

fun get_prop :: "jsval \<Rightarrow> string \<Rightarrow> exn + jsval" where
  "get_prop None k = Inl TypeError"
| "get_prop (Some JNull) k = Inl TypeError"
| "get_prop (Some (JObj kvs)) k = Inr (map_of kvs k)"
| "get_prop (Some (JArr xs)) k =
     Inr (if k = ''length'' then Some (JNum (of_nat (length xs))) else None)"
| "get_prop (Some (JStr s)) k =
     Inr (if k = ''length'' then Some (JNum (of_nat (length s))) else None)"
| "get_prop (Some (JBool b)) k = Inr None"
| "get_prop (Some (JNum n)) k = Inr None"

text \<open>
  The comparison \<^verbatim>\<open>x > 0\<close>. \<^verbatim>\<open>undefined\<close> becomes NaN and \<^verbatim>\<open>null\<close> becomes 0 (both
  give false), \<^verbatim>\<open>true\<close> becomes 1. A string, array or object operand goes through the
  runtime's ToPrimitive and string-to-number conversion, which is no code of this
  repository: its verdict is the parameter \<open>coerce\<close>.
\<close>

fun js_gt0 :: "(json \<Rightarrow> bool) \<Rightarrow> jsval \<Rightarrow> bool" where
  "js_gt0 coerce None = False"
| "js_gt0 coerce (Some JNull) = False"
| "js_gt0 coerce (Some (JBool b)) = b"
| "js_gt0 coerce (Some (JNum n)) = (0 < n)"
| "js_gt0 coerce (Some v) = coerce v"

text \<open>
  \<^verbatim>\<open>xs.map(f)\<close>: only an array has a callable \<^verbatim>\<open>map\<close>; on anything else the call
  raises a TypeError. An exception raised by \<open>f\<close> ends the traversal.
\<close>

fun map_exn :: "('a \<Rightarrow> exn + 'b) \<Rightarrow> 'a list \<Rightarrow> exn + 'b list" where
  "map_exn f [] = Inr []"
| "map_exn f (x # xs) =
     (case f x of
        Inl e \<Rightarrow> Inl e
      | Inr y \<Rightarrow> (case map_exn f xs of Inl e \<Rightarrow> Inl e | Inr ys \<Rightarrow> Inr (y # ys)))"

fun js_map :: "jsval \<Rightarrow> (json \<Rightarrow> exn + 'b) \<Rightarrow> exn + 'b list" where
  "js_map (Some (JArr xs)) f = map_exn f xs"
| "js_map v f = Inl TypeError"

section \<open>Promises and responses\<close>

datatype 'a promise = Pending | Resolved 'a | Rejected js_error

text \<open>\<^verbatim>\<open>resolve\<close> and \<^verbatim>\<open>reject\<close> settle a pending promise and do nothing to a settled one.\<close>

definition resolve_p :: "'a \<Rightarrow> 'a promise \<Rightarrow> 'a promise" where
  "resolve_p v p = (case p of Pending \<Rightarrow> Resolved v | _ \<Rightarrow> p)"

definition reject_p :: "js_error \<Rightarrow> 'a promise \<Rightarrow> 'a promise" where
  "reject_p e p = (case p of Pending \<Rightarrow> Rejected e | _ \<Rightarrow> p)"

text \<open>
  \<^verbatim>\<open>Promise.all\<close> over the final states of its members: rejected as soon as one member
  is, resolved when all are, pending otherwise.
\<close>

fun promise_all :: "'a promise list \<Rightarrow> 'a list promise" where
  "promise_all [] = Resolved []"
| "promise_all (p # ps) =
     (case p of
        Rejected e \<Rightarrow> Rejected e
      | Pending \<Rightarrow> (case promise_all ps of Rejected e \<Rightarrow> Rejected e | _ \<Rightarrow> Pending)
      | Resolved v \<Rightarrow>
          (case promise_all ps of
             Resolved vs \<Rightarrow> Resolved (v # vs)
           | Pending \<Rightarrow> Pending
           | Rejected e \<Rightarrow> Rejected e))"

record response =
  status :: nat
  body :: json

section \<open>The bulk importer: \<^verbatim>\<open>POST /api/import-data\<close>\<close>

text \<open>
  A table is the list of its rows, a row the list of values the driver was handed for
  it. The importer issues \<^verbatim>\<open>DELETE FROM medications\<close> and
  \<^verbatim>\<open>INSERT INTO medications (name, dosage, frequency, time, taken) VALUES ?\<close>.
  Whether a statement succeeds is the database's answer, given by the environment of
  the request: \<open>None\<close> for success, an error otherwise. A statement that fails leaves
  the table as it was.
\<close>

type_synonym row = "jsval list"

record db_state =
  medications :: "row list"
  reminders :: "row list"
  vitals :: "row list"
  appointments :: "row list"

datatype stmt = DeleteMedications | InsertMedications "row list"

record env =
  delete_result :: "js_error option"
  insert_result :: "js_error option"
  coerce_gt0 :: "json \<Rightarrow> bool"

definition exec_delete :: "js_error option \<Rightarrow> db_state \<Rightarrow> db_state" where
  "exec_delete res d = (case res of None \<Rightarrow> d\<lparr>medications := []\<rparr> | Some err \<Rightarrow> d)"

definition exec_insert :: "js_error option \<Rightarrow> row list \<Rightarrow> db_state \<Rightarrow> db_state" where
  "exec_insert res vals d =
     (case res of None \<Rightarrow> d\<lparr>medications := medications d @ vals\<rparr> | Some err \<Rightarrow> d)"

text \<open>
  \<^verbatim>\<open>med => [med.name, med.dosage, med.frequency, med.time, med.taken || false]\<close>
\<close>

definition med_values :: "json \<Rightarrow> exn + row" where
  "med_values med =
     (case get_prop (Some med) ''name'' of Inl e \<Rightarrow> Inl e | Inr name \<Rightarrow>
     (case get_prop (Some med) ''dosage'' of Inl e \<Rightarrow> Inl e | Inr dosage \<Rightarrow>
     (case get_prop (Some med) ''frequency'' of Inl e \<Rightarrow> Inl e | Inr frequency \<Rightarrow>
     (case get_prop (Some med) ''time'' of Inl e \<Rightarrow> Inl e | Inr time \<Rightarrow>
     (case get_prop (Some med) ''taken'' of Inl e \<Rightarrow> Inl e | Inr taken \<Rightarrow>
        Inr [name, dosage, frequency, time, js_or taken (Some (JBool False))])))))"

text \<open>
  What one run of the importer leaves behind: the database, the statements issued in
  order, the state of the promise, and an exception that escaped a callback (it reaches
  no \<^verbatim>\<open>catch\<close>; the promise stays as it is).
\<close>

record import_run =
  run_db :: db_state
  run_issued :: "stmt list"
  run_promise :: "unit promise"
  run_uncaught :: "exn option"

text \<open>
  The promise pushed for the medications table (lines 277 to 295):
  \<^verbatim>\<open>
  db.query('DELETE FROM medications', (err) => {
      if (err) reject(err);
      if (data.medications.length > 0) {
          const values = data.medications.map(med => [...]);
          db.query('INSERT ... VALUES ?', [values], (err) => err ? reject(err) : resolve());
      } else {
          resolve();
      }
  });
  \<close>
  After \<^verbatim>\<open>reject(err)\<close> the callback goes on: there is no \<^verbatim>\<open>return\<close>.
\<close>

definition import_medications :: "env \<Rightarrow> jsval \<Rightarrow> db_state \<Rightarrow> import_run" where
  "import_medications ev meds d =
     (let d1 = exec_delete (delete_result ev) d;
          p1 = (case delete_result ev of Some err \<Rightarrow> reject_p err Pending | None \<Rightarrow> Pending)
      in case get_prop meds ''length'' of
           Inl e \<Rightarrow>
             \<lparr>run_db = d1, run_issued = [DeleteMedications], run_promise = p1,
              run_uncaught = Some e\<rparr>
         | Inr len \<Rightarrow>
             if js_gt0 (coerce_gt0 ev) len then
               (case js_map meds med_values of
                  Inl e \<Rightarrow>
                    \<lparr>run_db = d1, run_issued = [DeleteMedications], run_promise = p1,
                     run_uncaught = Some e\<rparr>
                | Inr vals \<Rightarrow>
                    \<lparr>run_db = exec_insert (insert_result ev) vals d1,
                     run_issued = [DeleteMedications, InsertMedications vals],
                     run_promise =
                       (case insert_result ev of
                          Some err \<Rightarrow> reject_p err p1
                        | None \<Rightarrow> resolve_p () p1),
                     run_uncaught = None\<rparr>)
             else
               \<lparr>run_db = d1, run_issued = [DeleteMedications],
                run_promise = resolve_p () p1, run_uncaught = None\<rparr>)"

text \<open>
  The handler (lines 265 to 309). \<^verbatim>\<open>const { data } = req.body\<close> reads the property
  of the parsed body; a falsy \<open>data\<close> is answered with 400 at once. Only
  \<^verbatim>\<open>data.medications\<close> is looked at (``Similar logic for other tables...'' is a
  comment). The answer follows \<^verbatim>\<open>Promise.all(importPromises)\<close>; while that is pending
  no answer is sent.
\<close>

record import_outcome =
  reply :: "response option"
  db_after :: db_state
  issued :: "stmt list"
  uncaught :: "exn option"

definition import_reply :: "unit list promise \<Rightarrow> response option" where
  "import_reply p =
     (case p of
        Resolved vs \<Rightarrow>
          Some \<lparr>status = 200,
                body = JObj [(''success'', JBool True),
                             (''message'', JStr ''Data imported successfully'')]\<rparr>
      | Rejected e \<Rightarrow>
          Some \<lparr>status = 500, body = JObj [(''error'', JStr ''Failed to import data'')]\<rparr>
      | Pending \<Rightarrow> None)"

text \<open>
  \<^verbatim>\<open>importPromises\<close>: the per-table operations the handler launches before it joins
  them. The only block that pushes one is \<^verbatim>\<open>if (data.medications) { ... }\<close>.
\<close>

definition importPromises :: "env \<Rightarrow> jsval \<Rightarrow> db_state \<Rightarrow> exn + import_run list" where
  "importPromises ev data d =
     (case get_prop data ''medications'' of
        Inl e \<Rightarrow> Inl e
      | Inr meds \<Rightarrow> Inr (if truthy meds then [import_medications ev meds d] else []))"

definition import_data :: "env \<Rightarrow> json \<Rightarrow> db_state \<Rightarrow> import_outcome" where
  "import_data ev reqbody d =
     (case get_prop (Some reqbody) ''data'' of
        Inl e \<Rightarrow> \<lparr>reply = None, db_after = d, issued = [], uncaught = Some e\<rparr>
      | Inr data \<Rightarrow>
          if \<not> truthy data then
            \<lparr>reply = Some \<lparr>status = 400,
                            body = JObj [(''error'', JStr ''No data provided for import'')]\<rparr>,
             db_after = d, issued = [], uncaught = None\<rparr>
          else
            (case importPromises ev data d of
               Inl e \<Rightarrow> \<lparr>reply = None, db_after = d, issued = [], uncaught = Some e\<rparr>
             | Inr runs \<Rightarrow>
                 \<lparr>reply = import_reply (promise_all (map run_promise runs)),
                  db_after = (case runs of [] \<Rightarrow> d | r # rs \<Rightarrow> run_db r),
                  issued = concat (map run_issued runs),
                  uncaught = (case runs of [] \<Rightarrow> None | r # rs \<Rightarrow> run_uncaught r)\<rparr>))"

section \<open>Query callbacks of the dashboard and the export\<close>

text \<open>
  Both endpoints issue one query per table and count the callbacks. The driver calls a
  query's callback with \<^verbatim>\<open>(err, results)\<close>: an error, or the array of rows. A callback
  is the table its query reads, what the driver reports, and the clock at the moment it
  runs, written as \<^verbatim>\<open>new Date().toISOString()\<close> prints it.
\<close>

datatype table = Medications | Reminders | Vitals | Appointments

datatype query_result = Failed js_error | Rows "json list"

record callback =
  cb_table :: table
  cb_result :: query_result
  cb_time :: string

fun table_name :: "table \<Rightarrow> string" where
  "table_name Medications = ''medications''"
| "table_name Reminders = ''reminders''"
| "table_name Vitals = ''vitals''"
| "table_name Appointments = ''appointments''"

text \<open>\<^verbatim>\<open>xs[0]\<close>: the first element, \<^verbatim>\<open>undefined\<close> on an empty array.\<close>

definition index0 :: "json list \<Rightarrow> jsval" where
  "index0 xs = (case xs of [] \<Rightarrow> None | x # rest \<Rightarrow> Some x)"

text \<open>
  \<^verbatim>\<open>res.json(obj)\<close> and \<^verbatim>\<open>res.status(n).json(obj)\<close> send \<^verbatim>\<open>JSON.stringify(obj)\<close>, which
  leaves out the properties whose value is \<^verbatim>\<open>undefined\<close>.
\<close>

fun stringify_props :: "(string \<times> jsval) list \<Rightarrow> (string \<times> json) list" where
  "stringify_props [] = []"
| "stringify_props ((k, None) # ps) = stringify_props ps"
| "stringify_props ((k, Some v) # ps) = (k, v) # stringify_props ps"

definition res_json :: "nat \<Rightarrow> (string \<times> jsval) list \<Rightarrow> response" where
  "res_json st props = \<lparr>status = st, body = JObj (stringify_props props)\<rparr>"

section \<open>The dashboard aggregator: \<^verbatim>\<open>getDashboardStats\<close> and \<^verbatim>\<open>GET /api/dashboard-stats\<close>\<close>

text \<open>
  The arrays the four callbacks store when their query fails (lines 188, 198, 208, 218).
\<close>

fun fallback :: "table \<Rightarrow> json list" where
  "fallback Medications = [JObj [(''total'', JNum 0), (''taken'', JNum 0)]]"
| "fallback Reminders =
     [JObj [(''total'', JNum 0), (''today'', JNum 0), (''upcoming'', JNum 0)]]"
| "fallback Vitals = [JObj [(''total'', JNum 0)]]"
| "fallback Appointments = [JObj [(''total'', JNum 0), (''upcoming'', JNum 0)]]"

text \<open>
  The state the promise's executor closes over: the \<^verbatim>\<open>results\<close> object (a table's key
  is absent until its callback has run), the counter, the promise, and an exception
  that escaped a callback.
\<close>

record stats_state =
  results :: "table \<Rightarrow> json list option"
  completedQueries :: nat
  promise :: "(string \<times> jsval) list promise"
  thrown :: "exn option"

definition totalQueries :: nat where
  "totalQueries = 4"

definition initial_stats :: stats_state where
  "initial_stats =
     \<lparr>results = (\<lambda>t. None), completedQueries = 0, promise = Pending, thrown = None\<rparr>"

text \<open>
  \<^verbatim>\<open>checkCompletion\<close> (lines 171 to 182). Reading \<^verbatim>\<open>results.t[0]\<close> of a table whose
  callback has not run raises a TypeError inside the callback.
\<close>

definition checkCompletion :: "string \<Rightarrow> stats_state \<Rightarrow> stats_state" where
  "checkCompletion now st =
     (let st1 = st\<lparr>completedQueries := completedQueries st + 1\<rparr>
      in if completedQueries st1 = totalQueries then
           (case (results st1 Medications, results st1 Reminders,
                  results st1 Vitals, results st1 Appointments) of
              (Some m, Some r, Some v, Some a) \<Rightarrow>
                st1\<lparr>promise :=
                      resolve_p
                        [(''medications'', index0 m),
                         (''reminders'', index0 r),
                         (''vitals'', index0 v),
                         (''appointments'', index0 a),
                         (''lastUpdated'', Some (JStr now))]
                        (promise st1)\<rparr>
            | _ \<Rightarrow> st1\<lparr>thrown := Some TypeError\<rparr>)
         else st1)"

text \<open>
  One query callback (lines 185 to 223; the four differ in the table and its fallback):
  \<^verbatim>\<open>
  (err, rows) => {
      if (err) { console.error(...); results.t = fallback; } else { results.t = rows; }
      checkCompletion();
  }
  \<close>
\<close>

fun stored_rows :: "table \<Rightarrow> query_result \<Rightarrow> json list" where
  "stored_rows t (Failed err) = fallback t"
| "stored_rows t (Rows rs) = rs"

definition query_callback :: "callback \<Rightarrow> stats_state \<Rightarrow> stats_state" where
  "query_callback cb st =
     checkCompletion (cb_time cb)
       (st\<lparr>results := (results st)(cb_table cb \<mapsto> stored_rows (cb_table cb) (cb_result cb))\<rparr>)"

text \<open>The executor after the callbacks \<open>cbs\<close> have run, in that order.\<close>

definition getDashboardStats :: "callback list \<Rightarrow> stats_state" where
  "getDashboardStats cbs = fold query_callback cbs initial_stats"

text \<open>
  The handler (lines 135 to 146) awaits the promise: \<^verbatim>\<open>res.json(stats)\<close> when it
  resolves, the 500 answer of the \<^verbatim>\<open>catch\<close> when it rejects, nothing while it is
  pending.
\<close>

definition dashboard_stats_handler :: "(string \<times> jsval) list promise \<Rightarrow> response option" where
  "dashboard_stats_handler p =
     (case p of
        Resolved stats \<Rightarrow> Some (res_json 200 stats)
      | Rejected error \<Rightarrow>
          Some (res_json 500
                  [(''error'', Some (JStr ''Failed to fetch dashboard statistics'')),
                   (''details'', Some (JStr (message error)))])
      | Pending \<Rightarrow> None)"

section \<open>The bulk exporter: \<^verbatim>\<open>GET /api/export-data\<close>\<close>

text \<open>\<^verbatim>\<open>obj[k] = v\<close>: an existing property keeps its place, a new one goes last.\<close>

fun obj_set :: "string \<Rightarrow> json \<Rightarrow> (string \<times> json) list \<Rightarrow> (string \<times> json) list" where
  "obj_set k v [] = [(k, v)]"
| "obj_set k v ((k', v') # ps) =
     (if k' = k then (k, v) # ps else (k', v') # obj_set k v ps)"

record export_state =
  exportData :: "(string \<times> json) list"
  export_completed :: nat
  export_sent :: "response option"

definition initial_export :: export_state where
  "initial_export = \<lparr>exportData = [], export_completed = 0, export_sent = None\<rparr>"

text \<open>\<^verbatim>\<open>checkCompletion\<close> of the export (lines 240 to 249); four queries again.\<close>

definition export_checkCompletion :: "string \<Rightarrow> export_state \<Rightarrow> export_state" where
  "export_checkCompletion now st =
     (let st1 = st\<lparr>export_completed := export_completed st + 1\<rparr>
      in if export_completed st1 = 4 then
           st1\<lparr>export_sent :=
                 Some (res_json 200
                         [(''success'', Some (JBool True)),
                          (''exportedAt'', Some (JStr now)),
                          (''data'', Some (JObj (exportData st1)))])\<rparr>
         else st1)"

text \<open>
  \<^verbatim>\<open>
  (err, results) => {
      if (err) { exportData[table] = { error: err.message }; }
      else { exportData[table] = results; }
      checkCompletion();
  }
  \<close>
\<close>

fun export_entry :: "query_result \<Rightarrow> json" where
  "export_entry (Failed err) = JObj [(''error'', JStr (message err))]"
| "export_entry (Rows rs) = JArr rs"

definition export_callback :: "callback \<Rightarrow> export_state \<Rightarrow> export_state" where
  "export_callback cb st =
     export_checkCompletion (cb_time cb)
       (st\<lparr>exportData :=
             obj_set (table_name (cb_table cb)) (export_entry (cb_result cb)) (exportData st)\<rparr>)"

definition export_data :: "callback list \<Rightarrow> export_state" where
  "export_data cbs = fold export_callback cbs initial_export"

section \<open>The driver's contract for one request\<close>

text \<open>
  Each of the four queries ends once, with the outcome \<open>out t\<close> of its table, at some
  time; the callbacks may run in any order. \<open>ord\<close> lists the tables in the order their
  callbacks run, each with the clock at that moment.
\<close>

definition callbacks :: "(table \<Rightarrow> query_result) \<Rightarrow> (table \<times> string) list \<Rightarrow> callback list" where
  "callbacks out ord =
     map (\<lambda>(t, clock). \<lparr>cb_table = t, cb_result = out t, cb_time = clock\<rparr>) ord"

definition complete_order :: "(table \<times> string) list \<Rightarrow> bool" where
  "complete_order ord \<longleftrightarrow>
     distinct (map fst ord) \<and>
     set (map fst ord) = {Medications, Reminders, Vitals, Appointments}"

section \<open>The connection supervisor: \<^verbatim>\<open>db.on('error')\<close>\<close>

text \<open>
  \<^verbatim>\<open>
  db.on('error', (err) => {
      if (err.code === 'PROTOCOL_CONNECTION_LOST' || err.code === 'ECONNRESET') {
          connectWithRetry();
      } else {
          throw err;
      }
  });
  \<close>
\<close>

datatype supervisor_action = Reconnect | Throw js_error

definition on_db_error :: "js_error \<Rightarrow> supervisor_action" where
  "on_db_error err =
     (if code err = Some ''PROTOCOL_CONNECTION_LOST'' \<or> code err = Some ''ECONNRESET''
      then Reconnect
      else Throw err)"

text \<open>
  An error thrown by the listener is caught by nobody and reaches
  \<^verbatim>\<open>process.on('uncaughtException')\<close>, which calls \<^verbatim>\<open>shutdown()\<close>: \<^verbatim>\<open>db.end\<close>, then
  \<^verbatim>\<open>process.exit(1)\<close> if closing failed and \<^verbatim>\<open>process.exit(0)\<close> otherwise.
  \<open>end_result\<close> is what \<^verbatim>\<open>db.end\<close> reports.
\<close>

datatype supervisor_effect = BeginReconnect | Exit nat

definition shutdown :: "js_error option \<Rightarrow> supervisor_effect" where
  "shutdown end_result = (case end_result of Some err \<Rightarrow> Exit 1 | None \<Rightarrow> Exit 0)"

definition uncaughtException :: "js_error \<Rightarrow> js_error option \<Rightarrow> supervisor_effect" where
  "uncaughtException error end_result = shutdown end_result"

definition db_error_event :: "js_error \<Rightarrow> js_error option \<Rightarrow> supervisor_effect" where
  "db_error_event err end_result =
     (case on_db_error err of
        Reconnect \<Rightarrow> BeginReconnect
      | Throw e \<Rightarrow> uncaughtException e end_result)"

section \<open>Reference definitions for the properties\<close>

text \<open>
  The row the specification describes for one record of the import document: the
  record's \<open>name\<close>, \<open>dosage\<close>, \<open>frequency\<close> and \<open>time\<close> in this order, then \<open>taken\<close>,
  or \<open>false\<close> where the record has no (truthy) \<open>taken\<close>.
\<close>

definition field :: "json \<Rightarrow> string \<Rightarrow> jsval" where
  "field med k = (case get_prop (Some med) k of Inr v \<Rightarrow> v | Inl e \<Rightarrow> None)"

definition positional_row :: "json \<Rightarrow> row" where
  "positional_row med =
     [field med ''name'', field med ''dosage'', field med ''frequency'', field med ''time'',
      (if truthy (field med ''taken'') then field med ''taken'' else Some (JBool False))]"

text \<open>
  The \<open>data\<close> object the specification describes for an export: one entry per table,
  an error descriptor for a failed query and the row list otherwise.
\<close>

definition export_entries ::
  "(table \<Rightarrow> query_result) \<Rightarrow> (table \<times> string) list \<Rightarrow> (string \<times> json) list" where
  "export_entries out ord = map (\<lambda>(t, clock). (table_name t, export_entry (out t))) ord"

text \<open>Concrete requests and environments used to exercise the theorems.\<close>

definition db_works :: env where
  "db_works = \<lparr>delete_result = None, insert_result = None, coerce_gt0 = (\<lambda>v. False)\<rparr>"

definition delete_denied :: env where
  "delete_denied =
     \<lparr>delete_result =
        Some \<lparr>code = Some ''ER_TABLEACCESS_DENIED_ERROR'',
              message = ''DELETE command denied''\<rparr>,
      insert_result = None, coerce_gt0 = (\<lambda>v. False)\<rparr>"

definition insert_fails :: env where
  "insert_fails =
     \<lparr>delete_result = None,
      insert_result = Some \<lparr>code = Some ''ER_DATA_TOO_LONG'', message = ''Data too long''\<rparr>,
      coerce_gt0 = (\<lambda>v. False)\<rparr>"

definition one_old_row :: db_state where
  "one_old_row =
     \<lparr>medications =
        [[Some (JStr ''Ibuprofen''), Some (JStr ''200mg''), Some (JStr ''twice daily''),
          Some (JStr ''09:00''), Some (JBool True)]],
      reminders = [], vitals = [], appointments = []\<rparr>"

definition aspirin :: json where
  "aspirin =
     JObj [(''name'', JStr ''Aspirin''), (''dosage'', JStr ''81mg''),
           (''frequency'', JStr ''daily''), (''time'', JStr ''08:00'')]"

definition import_body :: "json list \<Rightarrow> json" where
  "import_body meds = JObj [(''data'', JObj [(''medications'', JArr meds)])]"

definition vitals_down :: "table \<Rightarrow> query_result" where
  "vitals_down t =
     (if t = Vitals then Failed \<lparr>code = Some ''ER_NO_SUCH_TABLE'', message = ''no such table''\<rparr>
      else Rows [JObj [(''total'', JNum 2)]])"

definition some_order :: "(table \<times> string) list" where
  "some_order =
     [(Reminders, ''2024-05-01T10:00:00.010Z''), (Medications, ''2024-05-01T10:00:00.011Z''),
      (Appointments, ''2024-05-01T10:00:00.012Z''), (Vitals, ''2024-05-01T10:00:00.015Z'')]"

section \<open>The importer: payload check and unrecognized keys\<close>

text \<open>
  C4. An import request whose body has no \<open>data\<close> field (reading \<^verbatim>\<open>req.body.data\<close>
  gives \<^verbatim>\<open>undefined\<close>) is answered at once with status 400; no statement is issued
  and the database is left as it was.
\<close>

theorem import_without_data_rejected:
  assumes "get_prop (Some reqbody) ''data'' = Inr None"
  shows "import_data ev reqbody d =
     \<lparr>reply = Some \<lparr>status = 400,
                     body = JObj [(''error'', JStr ''No data provided for import'')]\<rparr>,
      db_after = d, issued = [], uncaught = None\<rparr>"
  using assms by (simp add: import_data_def)

theorem import_without_data_rejected_witness:
  "get_prop (Some (JObj [(''payload'', JArr [aspirin])])) ''data'' = Inr None
   \<and> import_data db_works (JObj [(''payload'', JArr [aspirin])]) one_old_row =
       \<lparr>reply = Some \<lparr>status = 400,
                       body = JObj [(''error'', JStr ''No data provided for import'')]\<rparr>,
        db_after = one_old_row, issued = [], uncaught = None\<rparr>"
proof -
  have h: "get_prop (Some (JObj [(''payload'', JArr [aspirin])])) ''data'' = Inr None"
    by simp
  from import_without_data_rejected[OF h, of db_works one_old_row] h show ?thesis
    by simp
qed

text \<open>
  C8. When the \<open>data\<close> document of an import request is an object without a
  \<open>medications\<close> key (its keys are all ones the importer does not recognize), the
  keys are ignored: the request is answered with the success response, no statement
  is issued, nothing is thrown and every table is left as it was.
\<close>

theorem import_unrecognized_keys_ignored:
  assumes "map_of props ''data'' = Some (JObj kvs)"
      and "map_of kvs ''medications'' = None"
  shows "import_data ev (JObj props) d =
     \<lparr>reply = Some \<lparr>status = 200,
                     body = JObj [(''success'', JBool True),
                                  (''message'', JStr ''Data imported successfully'')]\<rparr>,
      db_after = d, issued = [], uncaught = None\<rparr>"
  using assms by (simp add: import_data_def importPromises_def import_reply_def)

theorem import_unrecognized_keys_ignored_witness:
  "map_of [(''data'', JObj [(''reminders'', JArr [aspirin]), (''vitals'', JArr [])])] ''data''
     = Some (JObj [(''reminders'', JArr [aspirin]), (''vitals'', JArr [])])
   \<and> map_of [(''reminders'', JArr [aspirin]), (''vitals'', JArr [])] ''medications'' = None
   \<and> import_data db_works
        (JObj [(''data'', JObj [(''reminders'', JArr [aspirin]), (''vitals'', JArr [])])])
        one_old_row =
       \<lparr>reply = Some \<lparr>status = 200,
                       body = JObj [(''success'', JBool True),
                                    (''message'', JStr ''Data imported successfully'')]\<rparr>,
        db_after = one_old_row, issued = [], uncaught = None\<rparr>"
proof -
  have h1: "map_of [(''data'', JObj [(''reminders'', JArr [aspirin]), (''vitals'', JArr [])])]
              ''data'' = Some (JObj [(''reminders'', JArr [aspirin]), (''vitals'', JArr [])])"
    by simp
  have h2: "map_of [(''reminders'', JArr [aspirin]), (''vitals'', JArr [])] ''medications'' = None"
    by simp
  from import_unrecognized_keys_ignored[OF h1 h2, of db_works one_old_row] h1 h2
  show ?thesis by simp
qed

section \<open>The importer: delete, then insert\<close>

lemma med_values_record: "med \<noteq> JNull \<Longrightarrow> med_values med = Inr (positional_row med)"
  by (cases med) (simp_all add: med_values_def positional_row_def field_def js_or_def)

lemma map_exn_total:
  "(\<And>x. x \<in> set xs \<Longrightarrow> f x = Inr (g x)) \<Longrightarrow> map_exn f xs = Inr (map g xs)"
  by (induction xs) simp_all

lemma map_exn_records:
  assumes "JNull \<notin> set meds"
  shows "map_exn med_values meds = Inr (map positional_row meds)"
proof (rule map_exn_total)
  fix x assume "x \<in> set meds"
  with assms have "x \<noteq> JNull" by auto
  then show "med_values x = Inr (positional_row x)" by (rule med_values_record)
qed

lemma import_medications_array:
  assumes "meds \<noteq> []" and "JNull \<notin> set meds"
  shows "import_medications ev (Some (JArr meds)) d =
     \<lparr>run_db = exec_insert (insert_result ev) (map positional_row meds)
                 (exec_delete (delete_result ev) d),
      run_issued = [DeleteMedications, InsertMedications (map positional_row meds)],
      run_promise =
        (case delete_result ev of
           Some err \<Rightarrow> Rejected err
         | None \<Rightarrow> (case insert_result ev of Some err \<Rightarrow> Rejected err | None \<Rightarrow> Resolved ())),
      run_uncaught = None\<rparr>"
  using assms
  by (simp add: import_medications_def map_exn_records resolve_p_def reject_p_def Let_def
      split: option.splits)

lemma import_medications_empty:
  "import_medications ev (Some (JArr [])) d =
     \<lparr>run_db = exec_delete (delete_result ev) d,
      run_issued = [DeleteMedications],
      run_promise = (case delete_result ev of Some err \<Rightarrow> Rejected err | None \<Rightarrow> Resolved ()),
      run_uncaught = None\<rparr>"
  by (simp add: import_medications_def resolve_p_def reject_p_def Let_def split: option.splits)

lemma promise_all_resolved_iff:
  "(\<exists>vs. promise_all ps = Resolved vs) \<longleftrightarrow> (\<forall>p \<in> set ps. \<exists>v. p = Resolved v)"
  by (induction ps) (auto split: promise.splits)

lemma promise_all_rejected_iff:
  "(\<exists>e. promise_all ps = Rejected e) \<longleftrightarrow> (\<exists>p \<in> set ps. \<exists>e. p = Rejected e)"
  by (induction ps) (auto split: promise.splits)

lemma import_reply_success_iff:
  "import_reply p =
     Some \<lparr>status = 200,
           body = JObj [(''success'', JBool True),
                        (''message'', JStr ''Data imported successfully'')]\<rparr>
   \<longleftrightarrow> (\<exists>vs. p = Resolved vs)"
  by (cases p) (simp_all add: import_reply_def)

lemma import_reply_failure_iff:
  "import_reply p =
     Some \<lparr>status = 500, body = JObj [(''error'', JStr ''Failed to import data'')]\<rparr>
   \<longleftrightarrow> (\<exists>e. p = Rejected e)"
  by (cases p) (simp_all add: import_reply_def)

lemma importPromises_truthy:
  assumes "truthy data"
  shows "\<exists>runs. importPromises ev data d = Inr runs \<and> length runs \<le> 1"
proof (cases data)
  case None
  with assms show ?thesis by simp
next
  case (Some j)
  with assms show ?thesis by (cases j) (simp_all add: importPromises_def)
qed

lemma import_data_launched:
  assumes "get_prop (Some reqbody) ''data'' = Inr data" and "truthy data"
      and "importPromises ev data d = Inr runs"
  shows "import_data ev reqbody d =
     \<lparr>reply = import_reply (promise_all (map run_promise runs)),
      db_after = (case runs of [] \<Rightarrow> d | r # rs \<Rightarrow> run_db r),
      issued = concat (map run_issued runs),
      uncaught = (case runs of [] \<Rightarrow> None | r # rs \<Rightarrow> run_uncaught r)\<rparr>"
  using assms by (simp add: import_data_def)


text \<open>
  When the \<^verbatim>\<open>DELETE\<close> succeeds the import is a full replace: the table ends up with
  the rows of the document and nothing else, or empty when the list is empty or the
  \<^verbatim>\<open>INSERT\<close> fails.
\<close>

lemma import_replaces_when_delete_succeeds:
  assumes "get_prop (Some reqbody) ''data'' = Inr (Some (JObj kvs))"
      and "map_of kvs ''medications'' = Some (JArr meds)"
      and "JNull \<notin> set meds"
      and "delete_result ev = None"
  shows "medications (db_after (import_data ev reqbody d)) =
           (if insert_result ev = None then map positional_row meds else [])"
    and "meds = [] \<Longrightarrow> issued (import_data ev reqbody d) = [DeleteMedications]"
    and "meds = [] \<Longrightarrow> reply (import_data ev reqbody d) =
           Some \<lparr>status = 200,
                 body = JObj [(''success'', JBool True),
                              (''message'', JStr ''Data imported successfully'')]\<rparr>"
proof -
  show "medications (db_after (import_data ev reqbody d)) =
           (if insert_result ev = None then map positional_row meds else [])"
  proof (cases "meds = []")
    case True
    with assms show ?thesis
      by (simp add: import_data_def importPromises_def import_medications_empty
          exec_delete_def)
  next
    case False
    with assms show ?thesis
      by (auto simp add: import_data_def importPromises_def import_medications_array
          exec_delete_def exec_insert_def)
  qed
  show "meds = [] \<Longrightarrow> issued (import_data ev reqbody d) = [DeleteMedications]"
    using assms
    by (simp add: import_data_def importPromises_def import_medications_empty)
  show "meds = [] \<Longrightarrow> reply (import_data ev reqbody d) =
           Some \<lparr>status = 200,
                 body = JObj [(''success'', JBool True),
                              (''message'', JStr ''Data imported successfully'')]\<rparr>"
    using assms
    by (simp add: import_data_def importPromises_def import_medications_empty
        import_reply_def)
qed

text \<open>
  When the \<^verbatim>\<open>DELETE\<close> fails and the \<^verbatim>\<open>INSERT\<close> succeeds, the rows of the document
  are added to the rows that were there, and the request is answered with 500.
\<close>

lemma import_merges_when_delete_fails:
  assumes "get_prop (Some reqbody) ''data'' = Inr (Some (JObj kvs))"
      and "map_of kvs ''medications'' = Some (JArr meds)"
      and "meds \<noteq> []" and "JNull \<notin> set meds"
      and "delete_result ev = Some err" and "insert_result ev = None"
  shows "medications (db_after (import_data ev reqbody d)) =
           medications d @ map positional_row meds"
    and "reply (import_data ev reqbody d) =
           Some \<lparr>status = 500, body = JObj [(''error'', JStr ''Failed to import data'')]\<rparr>"
  using assms
  by (simp_all add: import_data_def importPromises_def import_medications_array
      exec_delete_def exec_insert_def import_reply_def)

text \<open>
  C1. The claim: whenever the document names the medications table, the rows that were
  there are removed before new rows are inserted (a full replace, never a merge). The
  code at a request with one record, a table holding one row, a \<^verbatim>\<open>DELETE\<close> that
  the database refuses and an \<^verbatim>\<open>INSERT\<close> that it accepts: the callback calls
  \<^verbatim>\<open>reject(err)\<close> and, having no \<^verbatim>\<open>return\<close>, goes on to insert (the callback of
  the \<^verbatim>\<open>INSERT\<close> does one or the other: \<^verbatim>\<open>err ? reject(err) : resolve()\<close>). The table
  ends up with the old row and the new one; the answer is the 500 of the rejected
  promise.
\<close>

theorem import_after_failed_delete_merges:
  "import_data delete_denied (import_body [aspirin]) one_old_row =
     \<lparr>reply = Some \<lparr>status = 500, body = JObj [(''error'', JStr ''Failed to import data'')]\<rparr>,
      db_after =
        \<lparr>medications =
           [[Some (JStr ''Ibuprofen''), Some (JStr ''200mg''), Some (JStr ''twice daily''),
             Some (JStr ''09:00''), Some (JBool True)],
            [Some (JStr ''Aspirin''), Some (JStr ''81mg''), Some (JStr ''daily''),
             Some (JStr ''08:00''), Some (JBool False)]],
         reminders = [], vitals = [], appointments = []\<rparr>,
      issued =
        [DeleteMedications,
         InsertMedications
           [[Some (JStr ''Aspirin''), Some (JStr ''81mg''), Some (JStr ''daily''),
             Some (JStr ''08:00''), Some (JBool False)]]],
      uncaught = None\<rparr>"
  by (simp add: import_data_def importPromises_def import_medications_def import_body_def
      aspirin_def delete_denied_def one_old_row_def med_values_def js_or_def exec_delete_def
      exec_insert_def reject_p_def resolve_p_def import_reply_def)


section \<open>The importer: rows in document order\<close>



section \<open>The importer: the answer follows the launched operations\<close>

text \<open>
  What the database answers decides the medications operation: its promise resolves
  when the \<^verbatim>\<open>DELETE\<close> succeeded and, for a non-empty list, the \<^verbatim>\<open>INSERT\<close> did too; it
  is rejected as soon as either statement failed.
\<close>

lemma import_medications_promise:
  assumes "JNull \<notin> set meds"
  shows "run_promise (import_medications ev (Some (JArr meds)) d) = Resolved ()
           \<longleftrightarrow> delete_result ev = None \<and> (meds \<noteq> [] \<longrightarrow> insert_result ev = None)"
    and "(\<exists>e. run_promise (import_medications ev (Some (JArr meds)) d) = Rejected e)
           \<longleftrightarrow> delete_result ev \<noteq> None \<or> (meds \<noteq> [] \<and> insert_result ev \<noteq> None)"
proof -
  show "run_promise (import_medications ev (Some (JArr meds)) d) = Resolved ()
           \<longleftrightarrow> delete_result ev = None \<and> (meds \<noteq> [] \<longrightarrow> insert_result ev = None)"
  proof (cases "meds = []")
    case True
    then show ?thesis by (simp add: import_medications_empty split: option.splits)
  next
    case False
    with assms show ?thesis by (simp add: import_medications_array split: option.splits)
  qed
  show "(\<exists>e. run_promise (import_medications ev (Some (JArr meds)) d) = Rejected e)
           \<longleftrightarrow> delete_result ev \<noteq> None \<or> (meds \<noteq> [] \<and> insert_result ev \<noteq> None)"
  proof (cases "meds = []")
    case True
    then show ?thesis by (simp add: import_medications_empty split: option.splits)
  next
    case False
    with assms show ?thesis by (simp add: import_medications_array split: option.splits)
  qed
qed

text \<open>
  C5. For an import request that carries a data document, the handler launches its
  per-table operations (\<open>importPromises\<close>, at most the one for medications) and joins
  them with \<^verbatim>\<open>Promise.all\<close>. It answers with the success response exactly when every
  launched operation resolved, and with the generic 500 when one of them rejected.
  Nothing is issued besides the operations' own statements, and the database is left
  as the operation left it: nothing is undone. In terms of what the database answers,
  for a \<open>medications\<close> array of records: the one operation launched is the medications
  import; the answer is the success response exactly when the \<^verbatim>\<open>DELETE\<close> succeeded
  and, for a non-empty list, the \<^verbatim>\<open>INSERT\<close> succeeded; it is the generic 500 exactly
  when one of the two statements failed; and after a \<^verbatim>\<open>DELETE\<close> that succeeded and an
  \<^verbatim>\<open>INSERT\<close> that failed the table stays empty. With no (truthy) \<open>medications\<close>
  nothing is launched and the answer is the success response.
\<close>

theorem import_answer_follows_operations:
  assumes "get_prop (Some reqbody) ''data'' = Inr data" and "truthy data"
  shows "\<exists>runs. importPromises ev data d = Inr runs
     \<and> (reply (import_data ev reqbody d) =
          Some \<lparr>status = 200,
                body = JObj [(''success'', JBool True),
                             (''message'', JStr ''Data imported successfully'')]\<rparr>
        \<longleftrightarrow> (\<forall>r \<in> set runs. run_promise r = Resolved ()))
     \<and> ((\<exists>r \<in> set runs. \<exists>e. run_promise r = Rejected e) \<longrightarrow>
          reply (import_data ev reqbody d) =
            Some \<lparr>status = 500, body = JObj [(''error'', JStr ''Failed to import data'')]\<rparr>)
     \<and> issued (import_data ev reqbody d) = concat (map run_issued runs)
     \<and> (\<forall>r \<in> set runs. db_after (import_data ev reqbody d) = run_db r)
     \<and> (\<forall>meds. get_prop data ''medications'' = Inr (Some (JArr meds)) \<and> JNull \<notin> set meds \<longrightarrow>
           runs = [import_medications ev (Some (JArr meds)) d]
         \<and> (run_promise (import_medications ev (Some (JArr meds)) d) = Resolved ()
              \<longleftrightarrow> delete_result ev = None \<and> (meds \<noteq> [] \<longrightarrow> insert_result ev = None))
         \<and> (reply (import_data ev reqbody d) =
               Some \<lparr>status = 200,
                     body = JObj [(''success'', JBool True),
                                  (''message'', JStr ''Data imported successfully'')]\<rparr>
              \<longleftrightarrow> delete_result ev = None \<and> (meds \<noteq> [] \<longrightarrow> insert_result ev = None))
         \<and> (reply (import_data ev reqbody d) =
               Some \<lparr>status = 500, body = JObj [(''error'', JStr ''Failed to import data'')]\<rparr>
              \<longleftrightarrow> delete_result ev \<noteq> None \<or> (meds \<noteq> [] \<and> insert_result ev \<noteq> None))
         \<and> (delete_result ev = None \<and> meds \<noteq> [] \<and> insert_result ev \<noteq> None \<longrightarrow>
               medications (db_after (import_data ev reqbody d)) = []))
     \<and> (\<forall>meds. get_prop data ''medications'' = Inr meds \<and> \<not> truthy meds \<longrightarrow>
           runs = []
         \<and> reply (import_data ev reqbody d) =
               Some \<lparr>status = 200,
                     body = JObj [(''success'', JBool True),
                                  (''message'', JStr ''Data imported successfully'')]\<rparr>)"
proof -
  from importPromises_truthy[OF assms(2)] obtain runs
    where runs: "importPromises ev data d = Inr runs" and len: "length runs \<le> 1" by blast
  note eq = import_data_launched[OF assms runs]
  have a: "reply (import_data ev reqbody d) =
          Some \<lparr>status = 200,
                body = JObj [(''success'', JBool True),
                             (''message'', JStr ''Data imported successfully'')]\<rparr>
        \<longleftrightarrow> (\<forall>r \<in> set runs. run_promise r = Resolved ())"
    by (simp add: eq import_reply_success_iff promise_all_resolved_iff)
  have b: "(\<exists>r \<in> set runs. \<exists>e. run_promise r = Rejected e) \<longrightarrow>
          reply (import_data ev reqbody d) =
            Some \<lparr>status = 500, body = JObj [(''error'', JStr ''Failed to import data'')]\<rparr>"
    by (simp add: eq import_reply_failure_iff promise_all_rejected_iff)
  have c: "issued (import_data ev reqbody d) = concat (map run_issued runs)"
    by (simp add: eq)
  have d: "\<forall>r \<in> set runs. db_after (import_data ev reqbody d) = run_db r"
    using len by (cases runs) (simp_all add: eq)
  have e: "\<forall>meds. get_prop data ''medications'' = Inr (Some (JArr meds)) \<and> JNull \<notin> set meds \<longrightarrow>
           runs = [import_medications ev (Some (JArr meds)) d]
         \<and> (run_promise (import_medications ev (Some (JArr meds)) d) = Resolved ()
              \<longleftrightarrow> delete_result ev = None \<and> (meds \<noteq> [] \<longrightarrow> insert_result ev = None))
         \<and> (reply (import_data ev reqbody d) =
               Some \<lparr>status = 200,
                     body = JObj [(''success'', JBool True),
                                  (''message'', JStr ''Data imported successfully'')]\<rparr>
              \<longleftrightarrow> delete_result ev = None \<and> (meds \<noteq> [] \<longrightarrow> insert_result ev = None))
         \<and> (reply (import_data ev reqbody d) =
               Some \<lparr>status = 500, body = JObj [(''error'', JStr ''Failed to import data'')]\<rparr>
              \<longleftrightarrow> delete_result ev \<noteq> None \<or> (meds \<noteq> [] \<and> insert_result ev \<noteq> None))
         \<and> (delete_result ev = None \<and> meds \<noteq> [] \<and> insert_result ev \<noteq> None \<longrightarrow>
               medications (db_after (import_data ev reqbody d)) = [])"
  proof (intro allI impI, elim conjE)
    fix meds
    assume m: "get_prop data ''medications'' = Inr (Some (JArr meds))"
       and nn: "JNull \<notin> set meds"
    let ?run = "import_medications ev (Some (JArr meds)) d"
    from m runs have r: "runs = [?run]" by (simp add: importPromises_def)
    note p = import_medications_promise[OF nn, of ev d]
    have ok: "reply (import_data ev reqbody d) =
               Some \<lparr>status = 200,
                     body = JObj [(''success'', JBool True),
                                  (''message'', JStr ''Data imported successfully'')]\<rparr>
              \<longleftrightarrow> delete_result ev = None \<and> (meds \<noteq> [] \<longrightarrow> insert_result ev = None)"
      using a p(1) by (simp add: r)
    have "reply (import_data ev reqbody d) =
               Some \<lparr>status = 500, body = JObj [(''error'', JStr ''Failed to import data'')]\<rparr>
              \<longleftrightarrow> (\<exists>e. run_promise ?run = Rejected e)"
      by (cases "run_promise ?run") (simp_all add: eq r import_reply_def)
    with p(2) have bad: "reply (import_data ev reqbody d) =
               Some \<lparr>status = 500, body = JObj [(''error'', JStr ''Failed to import data'')]\<rparr>
              \<longleftrightarrow> delete_result ev \<noteq> None \<or> (meds \<noteq> [] \<and> insert_result ev \<noteq> None)"
      by simp
    have keep: "delete_result ev = None \<and> meds \<noteq> [] \<and> insert_result ev \<noteq> None \<longrightarrow>
               medications (db_after (import_data ev reqbody d)) = []"
      using nn
      by (auto simp add: eq r import_medications_array exec_delete_def exec_insert_def)
    from r p(1) ok bad keep
    show "runs = [?run]
         \<and> (run_promise ?run = Resolved ()
              \<longleftrightarrow> delete_result ev = None \<and> (meds \<noteq> [] \<longrightarrow> insert_result ev = None))
         \<and> (reply (import_data ev reqbody d) =
               Some \<lparr>status = 200,
                     body = JObj [(''success'', JBool True),
                                  (''message'', JStr ''Data imported successfully'')]\<rparr>
              \<longleftrightarrow> delete_result ev = None \<and> (meds \<noteq> [] \<longrightarrow> insert_result ev = None))
         \<and> (reply (import_data ev reqbody d) =
               Some \<lparr>status = 500, body = JObj [(''error'', JStr ''Failed to import data'')]\<rparr>
              \<longleftrightarrow> delete_result ev \<noteq> None \<or> (meds \<noteq> [] \<and> insert_result ev \<noteq> None))
         \<and> (delete_result ev = None \<and> meds \<noteq> [] \<and> insert_result ev \<noteq> None \<longrightarrow>
               medications (db_after (import_data ev reqbody d)) = [])"
      by (intro conjI)
  qed
  have f: "\<forall>meds. get_prop data ''medications'' = Inr meds \<and> \<not> truthy meds \<longrightarrow>
           runs = []
         \<and> reply (import_data ev reqbody d) =
               Some \<lparr>status = 200,
                     body = JObj [(''success'', JBool True),
                                  (''message'', JStr ''Data imported successfully'')]\<rparr>"
  proof (intro allI impI, elim conjE)
    fix meds
    assume m: "get_prop data ''medications'' = Inr meds" and nt: "\<not> truthy meds"
    from m nt runs have r: "runs = []" by (simp add: importPromises_def)
    with a show "runs = []
         \<and> reply (import_data ev reqbody d) =
               Some \<lparr>status = 200,
                     body = JObj [(''success'', JBool True),
                                  (''message'', JStr ''Data imported successfully'')]\<rparr>"
      by simp
  qed
  show ?thesis
    by (rule exI[of _ runs]) (intro conjI runs a b c d e f)
qed

theorem import_answer_follows_operations_witness:
  "get_prop (Some (import_body [aspirin])) ''data'' =
      Inr (Some (JObj [(''medications'', JArr [aspirin])]))
   \<and> truthy (Some (JObj [(''medications'', JArr [aspirin])]))
   \<and> reply (import_data db_works (import_body [aspirin]) one_old_row) =
       Some \<lparr>status = 200,
             body = JObj [(''success'', JBool True),
                          (''message'', JStr ''Data imported successfully'')]\<rparr>
   \<and> reply (import_data insert_fails (import_body [aspirin]) one_old_row) =
       Some \<lparr>status = 500, body = JObj [(''error'', JStr ''Failed to import data'')]\<rparr>
   \<and> medications (db_after (import_data insert_fails (import_body [aspirin]) one_old_row)) = []
   \<and> reply (import_data delete_denied (import_body [aspirin]) one_old_row) =
       Some \<lparr>status = 500, body = JObj [(''error'', JStr ''Failed to import data'')]\<rparr>"
proof -
  have h1: "get_prop (Some (import_body [aspirin])) ''data'' =
              Inr (Some (JObj [(''medications'', JArr [aspirin])]))"
    by (simp add: import_body_def)
  have h2: "truthy (Some (JObj [(''medications'', JArr [aspirin])]))" by simp
  have m: "get_prop (Some (JObj [(''medications'', JArr [aspirin])])) ''medications'' =
             Inr (Some (JArr [aspirin])) \<and> JNull \<notin> set [aspirin]"
    by (simp add: aspirin_def)
  have ne: "[aspirin] \<noteq> []" by simp
  have w: "delete_result db_works = None" "insert_result db_works = None"
    by (simp_all add: db_works_def)
  have i: "delete_result insert_fails = None" "insert_result insert_fails \<noteq> None"
    by (simp_all add: insert_fails_def)
  have dd: "delete_result delete_denied \<noteq> None"
    by (simp add: delete_denied_def)
  from import_answer_follows_operations[OF h1 h2, of db_works one_old_row] m w
  have ok: "reply (import_data db_works (import_body [aspirin]) one_old_row) =
       Some \<lparr>status = 200,
             body = JObj [(''success'', JBool True),
                          (''message'', JStr ''Data imported successfully'')]\<rparr>"
    by blast
  from import_answer_follows_operations[OF h1 h2, of insert_fails one_old_row] m ne i
  have bad: "reply (import_data insert_fails (import_body [aspirin]) one_old_row) =
       Some \<lparr>status = 500, body = JObj [(''error'', JStr ''Failed to import data'')]\<rparr>
     \<and> medications (db_after (import_data insert_fails (import_body [aspirin]) one_old_row)) = []"
    by blast
  from import_answer_follows_operations[OF h1 h2, of delete_denied one_old_row] m dd
  have den: "reply (import_data delete_denied (import_body [aspirin]) one_old_row) =
       Some \<lparr>status = 500, body = JObj [(''error'', JStr ''Failed to import data'')]\<rparr>"
    by blast
  from h1 h2 ok bad den show ?thesis by simp
qed

section \<open>The dashboard: counting the four callbacks\<close>

lemma getDashboardStats_snoc:
  "getDashboardStats (cbs @ [cb]) = query_callback cb (getDashboardStats cbs)"
  by (simp add: getDashboardStats_def)

lemma results_checkCompletion: "results (checkCompletion now st) = results st"
  by (simp add: checkCompletion_def Let_def split: option.splits)

lemma completed_checkCompletion:
  "completedQueries (checkCompletion now st) = completedQueries st + 1"
  by (simp add: checkCompletion_def Let_def split: option.splits)

lemma promise_checkCompletion_early:
  "completedQueries st + 1 \<noteq> 4 \<Longrightarrow> promise (checkCompletion now st) = promise st"
  by (simp add: checkCompletion_def Let_def totalQueries_def)

lemma promise_checkCompletion_cases:
  "promise (checkCompletion now st) = promise st \<or>
   (\<exists>v. promise (checkCompletion now st) = resolve_p v (promise st))"
  by (auto simp add: checkCompletion_def Let_def split: option.splits)

lemma results_query_callback:
  "results (query_callback cb st) =
     (results st)(cb_table cb \<mapsto> stored_rows (cb_table cb) (cb_result cb))"
  by (simp add: query_callback_def results_checkCompletion)

lemma completed_query_callback:
  "completedQueries (query_callback cb st) = completedQueries st + 1"
  by (simp add: query_callback_def completed_checkCompletion)

lemma completed_getDashboardStats: "completedQueries (getDashboardStats cbs) = length cbs"
proof (induction cbs rule: rev_induct)
  case Nil
  show ?case by (simp add: getDashboardStats_def initial_stats_def)
next
  case (snoc cb cbs)
  then show ?case by (simp add: getDashboardStats_snoc completed_query_callback)
qed

lemma callbacks_snoc:
  "callbacks out (ord @ [(t, clock)]) =
     callbacks out ord @ [\<lparr>cb_table = t, cb_result = out t, cb_time = clock\<rparr>]"
  by (simp add: callbacks_def)

lemma results_getDashboardStats:
  "results (getDashboardStats (callbacks out ord)) t =
     (if t \<in> fst ` set ord then Some (stored_rows t (out t)) else None)"
proof (induction ord rule: rev_induct)
  case Nil
  show ?case by (simp add: getDashboardStats_def initial_stats_def callbacks_def)
next
  case (snoc x ord)
  obtain u clock where x: "x = (u, clock)" by (cases x)
  show ?case
    using snoc
    by (auto simp add: x callbacks_snoc getDashboardStats_snoc results_query_callback
)
qed

lemma promise_pending_before:
  "length cbs < 4 \<Longrightarrow> promise (getDashboardStats cbs) = Pending"
proof (induction cbs rule: rev_induct)
  case Nil
  show ?case by (simp add: getDashboardStats_def initial_stats_def)
next
  case (snoc cb cbs)
  then have "promise (getDashboardStats cbs) = Pending" by simp
  moreover from snoc.prems have "length cbs + 1 \<noteq> 4" by simp
  ultimately show ?case
    by (simp add: getDashboardStats_snoc query_callback_def promise_checkCompletion_early
        completed_getDashboardStats[symmetric] del: completed_getDashboardStats)
qed

lemma resolve_p_not_rejected: "p \<noteq> Rejected e \<Longrightarrow> resolve_p v p \<noteq> Rejected e"
  by (cases p) (simp_all add: resolve_p_def)

lemma promise_query_callback_not_rejected:
  assumes "promise st \<noteq> Rejected e"
  shows "promise (query_callback cb st) \<noteq> Rejected e"
proof -
  let ?st = "st\<lparr>results := (results st)(cb_table cb \<mapsto> stored_rows (cb_table cb) (cb_result cb))\<rparr>"
  have "promise ?st = promise st" by simp
  with promise_checkCompletion_cases[of "cb_time cb" ?st] assms show ?thesis
    by (auto simp add: query_callback_def resolve_p_not_rejected)
qed

lemma promise_never_rejected: "promise (getDashboardStats cbs) \<noteq> Rejected e"
proof (induction cbs arbitrary: e rule: rev_induct)
  case Nil
  show ?case by (simp add: getDashboardStats_def initial_stats_def)
next
  case (snoc cb cbs)
  then show ?case
    by (simp add: getDashboardStats_snoc promise_query_callback_not_rejected)
qed

lemma complete_order_length: "complete_order ord \<Longrightarrow> length ord = 4"
proof -
  assume a: "complete_order ord"
  then have "card (set (map fst ord)) = length (map fst ord)"
    unfolding complete_order_def by (metis distinct_card)
  moreover from a have "card (set (map fst ord)) = 4"
    unfolding complete_order_def by simp
  ultimately show ?thesis by simp
qed

lemma complete_order_all: "complete_order ord \<Longrightarrow> t \<in> fst ` set ord"
  unfolding complete_order_def by (cases t) auto

lemma promise_resolved_when_complete:
  assumes "complete_order ord"
  shows "promise (getDashboardStats (callbacks out ord)) =
     Resolved [(''medications'', index0 (stored_rows Medications (out Medications))),
               (''reminders'', index0 (stored_rows Reminders (out Reminders))),
               (''vitals'', index0 (stored_rows Vitals (out Vitals))),
               (''appointments'', index0 (stored_rows Appointments (out Appointments))),
               (''lastUpdated'', Some (JStr (snd (last ord))))]"
proof -
  from assms have len: "length ord = 4" by (rule complete_order_length)
  then have "ord \<noteq> []" by auto
  then obtain ord' x where ord: "ord = ord' @ [x]" by (metis rev_exhaust)
  obtain u clock where x: "x = (u, clock)" by (cases x)
  let ?before = "getDashboardStats (callbacks out ord')"
  let ?cb = "\<lparr>cb_table = u, cb_result = out u, cb_time = clock\<rparr>"
  let ?mid = "?before\<lparr>results := (results ?before)(u \<mapsto> stored_rows u (out u))\<rparr>"
  from len ord have len': "length (callbacks out ord') = 3" by (simp add: callbacks_def)
  have pend: "promise ?before = Pending" using len' by (simp add: promise_pending_before)
  have cnt: "completedQueries ?before = 3" using len' by (simp add: completed_getDashboardStats)
  have step: "getDashboardStats (callbacks out ord) = checkCompletion clock ?mid"
    by (simp add: ord x callbacks_snoc getDashboardStats_snoc query_callback_def)
  have "results ?mid = results (getDashboardStats (callbacks out ord))"
    by (simp add: step results_checkCompletion)
  then have res: "results ?mid t = Some (stored_rows t (out t))" for t
    using complete_order_all[OF assms, of t] by (simp add: results_getDashboardStats)
  have "promise (checkCompletion clock ?mid) =
     Resolved [(''medications'', index0 (stored_rows Medications (out Medications))),
               (''reminders'', index0 (stored_rows Reminders (out Reminders))),
               (''vitals'', index0 (stored_rows Vitals (out Vitals))),
               (''appointments'', index0 (stored_rows Appointments (out Appointments))),
               (''lastUpdated'', Some (JStr clock))]"
    unfolding checkCompletion_def Let_def
    using res pend cnt by (simp add: totalQueries_def resolve_p_def)
  with step show ?thesis by (simp add: ord x)
qed

lemma map_of_stringify_props_absent:
  "k \<notin> fst ` set ps \<Longrightarrow> map_of (stringify_props ps) k = None"
  by (induction ps rule: stringify_props.induct) auto

lemma map_of_stringify_props:
  "distinct (map fst ps) \<Longrightarrow>
   map_of (stringify_props ps) k = (case map_of ps k of Some (Some v) \<Rightarrow> Some v | _ \<Rightarrow> None)"
  by (induction ps rule: stringify_props.induct)
     (auto simp add: map_of_stringify_props_absent)

lemma stringify_props_keys:
  "None \<notin> snd ` set ps \<Longrightarrow> map fst (stringify_props ps) = map fst ps"
  by (induction ps rule: stringify_props.induct) (auto simp add: image_iff)

lemma index0_stored_rows_defined:
  "out t \<noteq> Rows [] \<Longrightarrow> index0 (stored_rows t (out t)) \<noteq> None"
  by (cases "out t"; cases t) (auto simp add: index0_def split: list.splits)

lemma dashboard_answer_when_complete:
  assumes "complete_order ord"
  shows "dashboard_stats_handler (promise (getDashboardStats (callbacks out ord))) =
     Some \<lparr>status = 200,
           body = JObj (stringify_props
             [(''medications'', index0 (stored_rows Medications (out Medications))),
              (''reminders'', index0 (stored_rows Reminders (out Reminders))),
              (''vitals'', index0 (stored_rows Vitals (out Vitals))),
              (''appointments'', index0 (stored_rows Appointments (out Appointments))),
              (''lastUpdated'', Some (JStr (snd (last ord))))])\<rparr>"
  by (simp add: promise_resolved_when_complete[OF assms] dashboard_stats_handler_def res_json_def)

text \<open>
  C2. When the four callbacks have run (in any order), the handler answers with status
  200. A table whose summary query failed appears in the body under its key with its
  zero-valued projection, whatever the other three queries did. The body has the four
  table keys (and \<open>lastUpdated\<close>) as soon as no successful query handed over an empty
  row list, which a summary query without grouping never does.
\<close>

theorem dashboard_substitutes_fallback:
  assumes "complete_order ord"
  shows "\<exists>stats.
      dashboard_stats_handler (promise (getDashboardStats (callbacks out ord))) =
        Some \<lparr>status = 200, body = JObj stats\<rparr>
    \<and> (\<forall>err. out Medications = Failed err \<longrightarrow>
          map_of stats ''medications'' = Some (JObj [(''total'', JNum 0), (''taken'', JNum 0)]))
    \<and> (\<forall>err. out Reminders = Failed err \<longrightarrow>
          map_of stats ''reminders'' =
            Some (JObj [(''total'', JNum 0), (''today'', JNum 0), (''upcoming'', JNum 0)]))
    \<and> (\<forall>err. out Vitals = Failed err \<longrightarrow>
          map_of stats ''vitals'' = Some (JObj [(''total'', JNum 0)]))
    \<and> (\<forall>err. out Appointments = Failed err \<longrightarrow>
          map_of stats ''appointments'' =
            Some (JObj [(''total'', JNum 0), (''upcoming'', JNum 0)]))
    \<and> ((\<forall>t. out t \<noteq> Rows []) \<longrightarrow>
          map fst stats =
            [''medications'', ''reminders'', ''vitals'', ''appointments'', ''lastUpdated''])"
proof -
  let ?props = "[(''medications'', index0 (stored_rows Medications (out Medications))),
                 (''reminders'', index0 (stored_rows Reminders (out Reminders))),
                 (''vitals'', index0 (stored_rows Vitals (out Vitals))),
                 (''appointments'', index0 (stored_rows Appointments (out Appointments))),
                 (''lastUpdated'', Some (JStr (snd (last ord))))]"
  have dist: "distinct (map fst ?props)" by simp
  note look = map_of_stringify_props[OF dist]
  have a: "dashboard_stats_handler (promise (getDashboardStats (callbacks out ord))) =
        Some \<lparr>status = 200, body = JObj (stringify_props ?props)\<rparr>"
    using assms by (rule dashboard_answer_when_complete)
  have m: "\<forall>err. out Medications = Failed err \<longrightarrow>
          map_of (stringify_props ?props) ''medications'' =
            Some (JObj [(''total'', JNum 0), (''taken'', JNum 0)])"
    by (simp only: look) (simp add: index0_def)
  have r: "\<forall>err. out Reminders = Failed err \<longrightarrow>
          map_of (stringify_props ?props) ''reminders'' =
            Some (JObj [(''total'', JNum 0), (''today'', JNum 0), (''upcoming'', JNum 0)])"
    by (simp only: look) (simp add: index0_def)
  have v: "\<forall>err. out Vitals = Failed err \<longrightarrow>
          map_of (stringify_props ?props) ''vitals'' = Some (JObj [(''total'', JNum 0)])"
    by (simp only: look) (simp add: index0_def)
  have ap: "\<forall>err. out Appointments = Failed err \<longrightarrow>
          map_of (stringify_props ?props) ''appointments'' =
            Some (JObj [(''total'', JNum 0), (''upcoming'', JNum 0)])"
    by (simp only: look) (simp add: index0_def)
  have k: "(\<forall>t. out t \<noteq> Rows []) \<longrightarrow>
          map fst (stringify_props ?props) =
            [''medications'', ''reminders'', ''vitals'', ''appointments'', ''lastUpdated'']"
  proof
    assume ne: "\<forall>t. out t \<noteq> Rows []"
    have d: "None \<noteq> index0 (stored_rows t (out t))" for t
      using index0_stored_rows_defined[of out t] ne by metis
    have "None \<notin> snd ` set ?props"
      by (simp add: image_iff d)
    then have "map fst (stringify_props ?props) = map fst ?props"
      by (rule stringify_props_keys)
    then show "map fst (stringify_props ?props) =
            [''medications'', ''reminders'', ''vitals'', ''appointments'', ''lastUpdated'']"
      by simp
  qed
  show ?thesis
    by (rule exI[of _ "stringify_props ?props"]) (intro conjI a m r v ap k)
qed

theorem dashboard_substitutes_fallback_witness:
  "complete_order some_order
   \<and> dashboard_stats_handler (promise (getDashboardStats (callbacks vitals_down some_order))) =
       Some \<lparr>status = 200,
             body = JObj [(''medications'', JObj [(''total'', JNum 2)]),
                          (''reminders'', JObj [(''total'', JNum 2)]),
                          (''vitals'', JObj [(''total'', JNum 0)]),
                          (''appointments'', JObj [(''total'', JNum 2)]),
                          (''lastUpdated'', JStr ''2024-05-01T10:00:00.015Z'')]\<rparr>"
proof -
  have h: "complete_order some_order"
    by (simp add: complete_order_def some_order_def) auto
  from dashboard_substitutes_fallback[OF h, of vitals_down] obtain stats where
    st: "dashboard_stats_handler (promise (getDashboardStats (callbacks vitals_down some_order)))
           = Some \<lparr>status = 200, body = JObj stats\<rparr>"
    by blast
  have "dashboard_stats_handler (promise (getDashboardStats (callbacks vitals_down some_order))) =
       Some \<lparr>status = 200,
             body = JObj [(''medications'', JObj [(''total'', JNum 2)]),
                          (''reminders'', JObj [(''total'', JNum 2)]),
                          (''vitals'', JObj [(''total'', JNum 0)]),
                          (''appointments'', JObj [(''total'', JNum 2)]),
                          (''lastUpdated'', JStr ''2024-05-01T10:00:00.015Z'')]\<rparr>"
    unfolding dashboard_answer_when_complete[OF h]
    by (simp add: vitals_down_def index0_def some_order_def)
  with h st show ?thesis by simp
qed

lemma checkCompletion_resolves_only_complete:
  assumes "promise (checkCompletion now st) \<noteq> promise st"
  shows "results st t \<noteq> None"
proof -
  from assms have
    "\<exists>m r v a. results st Medications = Some m \<and> results st Reminders = Some r \<and>
       results st Vitals = Some v \<and> results st Appointments = Some a"
    by (auto simp add: checkCompletion_def Let_def split: if_splits option.splits)
  then show ?thesis by (cases t) auto
qed

lemma results_only_from_callbacks:
  "results (getDashboardStats cbs) t \<noteq> None \<Longrightarrow> t \<in> cb_table ` set cbs"
proof (induction cbs rule: rev_induct)
  case Nil
  then show ?case by (simp add: getDashboardStats_def initial_stats_def)
next
  case (snoc cb cbs)
  then show ?case
    by (auto simp add: getDashboardStats_snoc results_query_callback split: if_splits)
qed

lemma resolved_only_after_all_tables:
  "promise (getDashboardStats cbs) = Resolved stats \<Longrightarrow> t \<in> cb_table ` set cbs"
proof (induction cbs rule: rev_induct)
  case Nil
  then show ?case by (simp add: getDashboardStats_def initial_stats_def)
next
  case (snoc cb cbs)
  let ?st = "getDashboardStats cbs"
  let ?mid = "?st\<lparr>results :=
      (results ?st)(cb_table cb \<mapsto> stored_rows (cb_table cb) (cb_result cb))\<rparr>"
  have step: "getDashboardStats (cbs @ [cb]) = checkCompletion (cb_time cb) ?mid"
    by (simp add: getDashboardStats_snoc query_callback_def)
  show ?case
  proof (cases "promise (checkCompletion (cb_time cb) ?mid) = promise ?mid")
    case True
    with snoc.prems step have "promise ?st = Resolved stats" by simp
    with snoc.IH show ?thesis by simp
  next
    case False
    then have "results ?mid t \<noteq> None" by (rule checkCompletion_resolves_only_complete)
    then have "results (getDashboardStats (cbs @ [cb])) t \<noteq> None"
      by (simp add: step results_checkCompletion)
    then show ?thesis by (rule results_only_from_callbacks)
  qed
qed

text \<open>
  C7. With each of the four callbacks running once, in any order: the promise is
  pending as long as fewer than four have run, and after the fourth it is resolved with
  \<open>{medications, reminders, vitals, appointments, lastUpdated}\<close>. Each of the first
  four is element 0 of what its callback stored, so for a query that handed over its
  single summary row it is that row itself, not a list; \<open>lastUpdated\<close> is the clock
  at the fourth callback. (In any run at all, a resolved promise means that the
  callbacks of all four tables have run: \<open>resolved_only_after_all_tables\<close>.)
\<close>

theorem dashboard_resolves_after_all_four:
  assumes "complete_order ord"
  shows "(\<forall>n < length ord.
            promise (getDashboardStats (callbacks out (take n ord))) = Pending)
    \<and> promise (getDashboardStats (callbacks out ord)) =
        Resolved [(''medications'', index0 (stored_rows Medications (out Medications))),
                  (''reminders'', index0 (stored_rows Reminders (out Reminders))),
                  (''vitals'', index0 (stored_rows Vitals (out Vitals))),
                  (''appointments'', index0 (stored_rows Appointments (out Appointments))),
                  (''lastUpdated'', Some (JStr (snd (last ord))))]
    \<and> (\<forall>t row. out t = Rows [row] \<longrightarrow> index0 (stored_rows t (out t)) = Some row)"
proof (intro conjI)
  from assms have len: "length ord = 4" by (rule complete_order_length)
  show "\<forall>n < length ord. promise (getDashboardStats (callbacks out (take n ord))) = Pending"
  proof (intro allI impI)
    fix n assume "n < length ord"
    with len have "length (callbacks out (take n ord)) < 4" by (simp add: callbacks_def)
    then show "promise (getDashboardStats (callbacks out (take n ord))) = Pending"
      by (rule promise_pending_before)
  qed
  show "promise (getDashboardStats (callbacks out ord)) =
        Resolved [(''medications'', index0 (stored_rows Medications (out Medications))),
                  (''reminders'', index0 (stored_rows Reminders (out Reminders))),
                  (''vitals'', index0 (stored_rows Vitals (out Vitals))),
                  (''appointments'', index0 (stored_rows Appointments (out Appointments))),
                  (''lastUpdated'', Some (JStr (snd (last ord))))]"
    using assms by (rule promise_resolved_when_complete)
  show "\<forall>t row. out t = Rows [row] \<longrightarrow> index0 (stored_rows t (out t)) = Some row"
    by (simp add: index0_def)
qed

theorem dashboard_resolves_after_all_four_witness:
  "complete_order some_order
   \<and> promise (getDashboardStats (callbacks vitals_down (take 3 some_order))) = Pending
   \<and> promise (getDashboardStats (callbacks vitals_down some_order)) =
       Resolved [(''medications'', Some (JObj [(''total'', JNum 2)])),
                 (''reminders'', Some (JObj [(''total'', JNum 2)])),
                 (''vitals'', Some (JObj [(''total'', JNum 0)])),
                 (''appointments'', Some (JObj [(''total'', JNum 2)])),
                 (''lastUpdated'', Some (JStr ''2024-05-01T10:00:00.015Z''))]"
proof -
  have h: "complete_order some_order"
    by (simp add: complete_order_def some_order_def) auto
  have len: "3 < length some_order" by (simp add: some_order_def)
  have vals: "index0 (stored_rows Medications (vitals_down Medications)) =
                 Some (JObj [(''total'', JNum 2)])"
             "index0 (stored_rows Reminders (vitals_down Reminders)) =
                 Some (JObj [(''total'', JNum 2)])"
             "index0 (stored_rows Vitals (vitals_down Vitals)) =
                 Some (JObj [(''total'', JNum 0)])"
             "index0 (stored_rows Appointments (vitals_down Appointments)) =
                 Some (JObj [(''total'', JNum 2)])"
             "snd (last some_order) = ''2024-05-01T10:00:00.015Z''"
    by (simp_all add: vitals_down_def index0_def some_order_def)
  from dashboard_resolves_after_all_four[OF h, of vitals_down] len h show ?thesis
    by (simp only: vals)
qed

text \<open>
  C10. \<^verbatim>\<open>getDashboardStats\<close> never calls \<^verbatim>\<open>reject\<close>: after any callbacks whatever,
  with any outcomes, its promise is not rejected, so an answer of the dashboard
  handler, when there is one, has status 200 and never the 500 of its \<^verbatim>\<open>catch\<close>.
  Once the four callbacks have run the promise is resolved and the answer is there.
\<close>

theorem dashboard_promise_never_rejects:
  "(\<forall>e. promise (getDashboardStats cbs) \<noteq> Rejected e)
   \<and> (\<forall>r. dashboard_stats_handler (promise (getDashboardStats cbs)) = Some r \<longrightarrow>
          status r = 200)
   \<and> (complete_order ord \<longrightarrow>
        (\<exists>stats. promise (getDashboardStats (callbacks out ord)) = Resolved stats)
        \<and> (\<exists>b. dashboard_stats_handler (promise (getDashboardStats (callbacks out ord))) =
                  Some \<lparr>status = 200, body = b\<rparr>))"
proof (intro conjI)
  show nr: "\<forall>e. promise (getDashboardStats cbs) \<noteq> Rejected e"
    by (simp add: promise_never_rejected)
  show "\<forall>r. dashboard_stats_handler (promise (getDashboardStats cbs)) = Some r \<longrightarrow>
          status r = 200"
    using nr
    by (cases "promise (getDashboardStats cbs)")
       (auto simp add: dashboard_stats_handler_def res_json_def)
  show "complete_order ord \<longrightarrow>
        (\<exists>stats. promise (getDashboardStats (callbacks out ord)) = Resolved stats)
        \<and> (\<exists>b. dashboard_stats_handler (promise (getDashboardStats (callbacks out ord))) =
                  Some \<lparr>status = 200, body = b\<rparr>)"
    by (simp add: promise_resolved_when_complete dashboard_stats_handler_def res_json_def)
qed

theorem dashboard_promise_never_rejects_witness:
  "complete_order some_order
   \<and> (\<exists>stats. promise (getDashboardStats (callbacks vitals_down some_order)) = Resolved stats)
   \<and> (\<exists>b. dashboard_stats_handler
              (promise (getDashboardStats (callbacks vitals_down some_order))) =
            Some \<lparr>status = 200, body = b\<rparr>)"
proof -
  have h: "complete_order some_order"
    by (simp add: complete_order_def some_order_def) auto
  from dashboard_promise_never_rejects[of "[]" some_order vitals_down] h show ?thesis
    by blast
qed

section \<open>The export: one entry per table\<close>

lemma table_name_inj: "table_name t = table_name u \<longleftrightarrow> t = u"
  by (cases t; cases u) simp_all

lemma obj_set_new: "k \<notin> fst ` set ps \<Longrightarrow> obj_set k v ps = ps @ [(k, v)]"
  by (induction ps) auto

lemma export_data_snoc:
  "export_data (cbs @ [cb]) = export_callback cb (export_data cbs)"
  by (simp add: export_data_def)

lemma exportData_callback:
  "exportData (export_callback cb st) =
     obj_set (table_name (cb_table cb)) (export_entry (cb_result cb)) (exportData st)"
  by (simp add: export_callback_def export_checkCompletion_def Let_def)

lemma completed_callback:
  "export_completed (export_callback cb st) = export_completed st + 1"
  by (simp add: export_callback_def export_checkCompletion_def Let_def)

lemma sent_callback_early:
  "export_completed st + 1 \<noteq> 4 \<Longrightarrow> export_sent (export_callback cb st) = export_sent st"
  by (simp add: export_callback_def export_checkCompletion_def Let_def)

lemma sent_callback_fourth:
  "export_completed st = 3 \<Longrightarrow>
   export_sent (export_callback cb st) =
     Some (res_json 200
             [(''success'', Some (JBool True)),
              (''exportedAt'', Some (JStr (cb_time cb))),
              (''data'', Some (JObj (exportData (export_callback cb st))))])"
  by (simp add: export_callback_def export_checkCompletion_def Let_def)

lemma export_completed_count: "export_completed (export_data cbs) = length cbs"
proof (induction cbs rule: rev_induct)
  case Nil
  show ?case by (simp add: export_data_def initial_export_def)
next
  case (snoc cb cbs)
  then show ?case by (simp add: export_data_snoc completed_callback)
qed

lemma export_unsent_before: "length cbs < 4 \<Longrightarrow> export_sent (export_data cbs) = None"
proof (induction cbs rule: rev_induct)
  case Nil
  show ?case by (simp add: export_data_def initial_export_def)
next
  case (snoc cb cbs)
  then have "export_sent (export_data cbs) = None" by simp
  moreover from snoc.prems have "export_completed (export_data cbs) + 1 \<noteq> 4"
    by (simp add: export_completed_count)
  ultimately show ?case by (simp add: export_data_snoc sent_callback_early)
qed

lemma exportData_distinct:
  "distinct (map fst ord) \<Longrightarrow>
   exportData (export_data (callbacks out ord)) = export_entries out ord"
proof (induction ord rule: rev_induct)
  case Nil
  show ?case by (simp add: export_data_def initial_export_def callbacks_def export_entries_def)
next
  case (snoc x ord)
  obtain u clock where x: "x = (u, clock)" by (cases x)
  from snoc.prems have d: "distinct (map fst ord)" and new: "u \<notin> fst ` set ord"
    by (simp_all add: x)
  from new have "table_name u \<notin> fst ` set (export_entries out ord)"
    by (force simp add: export_entries_def table_name_inj)
  then show ?case
    using snoc.IH[OF d]
    by (simp add: x callbacks_snoc export_data_snoc exportData_callback obj_set_new)
       (simp add: export_entries_def)
qed

lemma export_sent_complete:
  assumes "complete_order ord"
  shows "export_sent (export_data (callbacks out ord)) =
     Some \<lparr>status = 200,
           body = JObj [(''success'', JBool True),
                        (''exportedAt'', JStr (snd (last ord))),
                        (''data'', JObj (export_entries out ord))]\<rparr>"
proof -
  from assms have len: "length ord = 4" by (rule complete_order_length)
  from assms have dist: "distinct (map fst ord)" by (simp add: complete_order_def)
  from len have "ord \<noteq> []" by auto
  then obtain ord' x where ord: "ord = ord' @ [x]" by (metis rev_exhaust)
  obtain u clock where x: "x = (u, clock)" by (cases x)
  let ?cb = "\<lparr>cb_table = u, cb_result = out u, cb_time = clock\<rparr>"
  have step: "export_data (callbacks out ord) = export_callback ?cb (export_data (callbacks out ord'))"
    by (simp add: ord x callbacks_snoc export_data_snoc)
  from len ord have "export_completed (export_data (callbacks out ord')) = 3"
    by (simp add: export_completed_count callbacks_def)
  then have "export_sent (export_data (callbacks out ord)) =
     Some (res_json 200
             [(''success'', Some (JBool True)),
              (''exportedAt'', Some (JStr clock)),
              (''data'', Some (JObj (exportData (export_data (callbacks out ord)))))])"
    unfolding step by (simp add: sent_callback_fourth)
  then show ?thesis
    by (simp add: exportData_distinct[OF dist] res_json_def) (simp add: ord x)
qed

lemma map_of_export_entries:
  "t \<in> fst ` set ord \<Longrightarrow> map_of (export_entries out ord) (table_name t) = Some (export_entry (out t))"
  by (induction ord) (auto simp add: export_entries_def table_name_inj)

text \<open>
  C3. With each of the four callbacks running once, in any order and with any
  outcomes, the export answers \<open>{success: true, exportedAt, data}\<close> (status 200) where
  \<open>data\<close> has exactly the four table keys; the entry of a table whose query failed is
  the object \<open>{error: message}\<close> (not an array), the entry of a table whose query
  succeeded is its row list as the driver handed it over.
\<close>

theorem export_has_four_entries:
  assumes "complete_order ord"
  shows "\<exists>dat.
      export_sent (export_data (callbacks out ord)) =
        Some \<lparr>status = 200,
              body = JObj [(''success'', JBool True),
                           (''exportedAt'', JStr (snd (last ord))),
                           (''data'', JObj dat)]\<rparr>
    \<and> length dat = 4
    \<and> set (map fst dat) = {''medications'', ''reminders'', ''vitals'', ''appointments''}
    \<and> (\<forall>t err. out t = Failed err \<longrightarrow>
          map_of dat (table_name t) = Some (JObj [(''error'', JStr (message err))]))
    \<and> (\<forall>t rs. out t = Rows rs \<longrightarrow> map_of dat (table_name t) = Some (JArr rs))"
proof (intro exI conjI)
  show "export_sent (export_data (callbacks out ord)) =
        Some \<lparr>status = 200,
              body = JObj [(''success'', JBool True),
                           (''exportedAt'', JStr (snd (last ord))),
                           (''data'', JObj (export_entries out ord))]\<rparr>"
    using assms by (rule export_sent_complete)
  show "length (export_entries out ord) = 4"
    using complete_order_length[OF assms] by (simp add: export_entries_def)
  have "map fst (export_entries out ord) = map table_name (map fst ord)"
    by (simp add: export_entries_def case_prod_unfold)
  then have "set (map fst (export_entries out ord)) = table_name ` set (map fst ord)"
    by (metis set_map)
  also have "\<dots> = {''medications'', ''reminders'', ''vitals'', ''appointments''}"
    using assms by (simp add: complete_order_def)
  finally show "set (map fst (export_entries out ord)) =
      {''medications'', ''reminders'', ''vitals'', ''appointments''}" .
  show "\<forall>t err. out t = Failed err \<longrightarrow>
          map_of (export_entries out ord) (table_name t) = Some (JObj [(''error'', JStr (message err))])"
    using complete_order_all[OF assms] by (simp add: map_of_export_entries)
  show "\<forall>t rs. out t = Rows rs \<longrightarrow> map_of (export_entries out ord) (table_name t) = Some (JArr rs)"
    using complete_order_all[OF assms] by (simp add: map_of_export_entries)
qed

theorem export_has_four_entries_witness:
  "complete_order some_order
   \<and> export_sent (export_data (callbacks vitals_down some_order)) =
       Some \<lparr>status = 200,
             body = JObj [(''success'', JBool True),
                          (''exportedAt'', JStr ''2024-05-01T10:00:00.015Z''),
                          (''data'',
                           JObj [(''reminders'', JArr [JObj [(''total'', JNum 2)]]),
                                 (''medications'', JArr [JObj [(''total'', JNum 2)]]),
                                 (''appointments'', JArr [JObj [(''total'', JNum 2)]]),
                                 (''vitals'', JObj [(''error'', JStr ''no such table'')])])]\<rparr>"
proof -
  have h: "complete_order some_order"
    by (simp add: complete_order_def some_order_def) auto
  from export_has_four_entries[OF h, of vitals_down] obtain dat where
    sent: "export_sent (export_data (callbacks vitals_down some_order)) =
        Some \<lparr>status = 200,
              body = JObj [(''success'', JBool True),
                           (''exportedAt'', JStr (snd (last some_order))),
                           (''data'', JObj dat)]\<rparr>"
    by blast
  have "export_sent (export_data (callbacks vitals_down some_order)) =
       Some \<lparr>status = 200,
             body = JObj [(''success'', JBool True),
                          (''exportedAt'', JStr ''2024-05-01T10:00:00.015Z''),
                          (''data'',
                           JObj [(''reminders'', JArr [JObj [(''total'', JNum 2)]]),
                                 (''medications'', JArr [JObj [(''total'', JNum 2)]]),
                                 (''appointments'', JArr [JObj [(''total'', JNum 2)]]),
                                 (''vitals'', JObj [(''error'', JStr ''no such table'')])])]\<rparr>"
    unfolding export_sent_complete[OF h]
    by (simp add: export_entries_def some_order_def vitals_down_def)
  with h sent show ?thesis by simp
qed

section \<open>The supervisor: which errors reconnect\<close>

text \<open>
  C9. On an error event of the connection the listener begins the reconnect sequence
  exactly when the error's code is \<^verbatim>\<open>PROTOCOL_CONNECTION_LOST\<close> or \<^verbatim>\<open>ECONNRESET\<close>. Any
  other error is thrown again unchanged, is caught by nobody, and ends the process
  through the shutdown path; no reconnect is begun for it.
\<close>

theorem supervisor_reconnects_only_on_lost_connection:
  "(db_error_event err end_result = BeginReconnect \<longleftrightarrow>
      code err = Some ''PROTOCOL_CONNECTION_LOST'' \<or> code err = Some ''ECONNRESET'')
   \<and> (code err \<noteq> Some ''PROTOCOL_CONNECTION_LOST'' \<and> code err \<noteq> Some ''ECONNRESET'' \<longrightarrow>
        on_db_error err = Throw err
        \<and> db_error_event err end_result =
            Exit (case end_result of Some e \<Rightarrow> 1 | None \<Rightarrow> 0))"
  by (auto simp add: db_error_event_def on_db_error_def uncaughtException_def shutdown_def
      split: option.splits)

theorem supervisor_reconnects_only_on_lost_connection_witness:
  "code \<lparr>code = Some ''ER_ACCESS_DENIED_ERROR'', message = ''Access denied''\<rparr>
      \<noteq> Some ''PROTOCOL_CONNECTION_LOST''
   \<and> code \<lparr>code = Some ''ER_ACCESS_DENIED_ERROR'', message = ''Access denied''\<rparr>
      \<noteq> Some ''ECONNRESET''
   \<and> db_error_event \<lparr>code = Some ''ER_ACCESS_DENIED_ERROR'', message = ''Access denied''\<rparr> None
      = Exit 0
   \<and> db_error_event \<lparr>code = Some ''ECONNRESET'', message = ''read ECONNRESET''\<rparr> None
      = BeginReconnect"
proof -
  have h: "code \<lparr>code = Some ''ER_ACCESS_DENIED_ERROR'', message = ''Access denied''\<rparr>
             \<noteq> Some ''PROTOCOL_CONNECTION_LOST''
         \<and> code \<lparr>code = Some ''ER_ACCESS_DENIED_ERROR'', message = ''Access denied''\<rparr>
             \<noteq> Some ''ECONNRESET''"
    by simp
  from supervisor_reconnects_only_on_lost_connection
         [of "\<lparr>code = Some ''ER_ACCESS_DENIED_ERROR'', message = ''Access denied''\<rparr>" None]
       supervisor_reconnects_only_on_lost_connection
         [of "\<lparr>code = Some ''ECONNRESET'', message = ''read ECONNRESET''\<rparr>" None]
       h
  show ?thesis by simp
qed

end
